theory Spec2Isabelle
  imports Main "HOL-Library.Sublist"
begin

section \<open>Text\<close>

text \<open>
  Python strings are modelled as \<^typ>\<open>string\<close>, one \<^typ>\<open>char\<close> per code point
  (code points up to 255). Character classes are given by code point.
\<close>

abbreviation NL :: char where
  "NL \<equiv> CHR 0x0A"

definition code_point :: "char \<Rightarrow> nat" where
  "code_point c = of_char c"

definition is_ascii_letter :: "char \<Rightarrow> bool" where
  "is_ascii_letter c \<longleftrightarrow>
     (65 \<le> code_point c \<and> code_point c \<le> 90) \<or> (97 \<le> code_point c \<and> code_point c \<le> 122)"

definition is_ascii_digit :: "char \<Rightarrow> bool" where
  "is_ascii_digit c \<longleftrightarrow> 48 \<le> code_point c \<and> code_point c \<le> 57"

definition is_word_char :: "char \<Rightarrow> bool" where
  \<comment> \<open>the class \<open>[a-zA-Z0-9_]\<close> of the regular expression in \<open>sanitize_agent_name\<close>\<close>
  "is_word_char c \<longleftrightarrow> is_ascii_letter c \<or> is_ascii_digit c \<or> c = CHR ''_''"

definition isspace :: "char \<Rightarrow> bool" where
  \<comment> \<open>\<open>str.isspace\<close> on the code points up to 255\<close>
  "isspace c \<longleftrightarrow> code_point c \<in> {9, 10, 11, 12, 13, 28, 29, 30, 31, 32, 133, 160}"

definition strip_chars :: "(char \<Rightarrow> bool) \<Rightarrow> string \<Rightarrow> string" where
  \<comment> \<open>\<open>str.strip\<close>: drop the leading and the trailing characters of the class\<close>
  "strip_chars p s = rev (dropWhile p (rev (dropWhile p s)))"

definition strip :: "string \<Rightarrow> string" where
  "strip s = strip_chars isspace s"

definition replace_char :: "char \<Rightarrow> char \<Rightarrow> string \<Rightarrow> string" where
  \<comment> \<open>\<open>str.replace\<close> with a one-character pattern and a one-character replacement\<close>
  "replace_char a b s = map (\<lambda>c. if c = a then b else c) s"

definition endswith_newline :: "string \<Rightarrow> bool" where
  "endswith_newline s \<longleftrightarrow> (case rev s of [] \<Rightarrow> False | c # _ \<Rightarrow> c = NL)"

definition isidentifier :: "string \<Rightarrow> bool" where
  \<comment> \<open>\<open>str.isidentifier\<close> on ASCII text: a letter or underscore, then letters, digits and
      underscores. A string this accepts is an identifier for Python as well.\<close>
  "isidentifier s \<longleftrightarrow>
     (case s of [] \<Rightarrow> False
      | c # cs \<Rightarrow> (is_ascii_letter c \<or> c = CHR ''_'') \<and> list_all is_word_char cs)"


section \<open>Agent names (\<open>sanitize_agent_name\<close>, \<open>AgentConfig\<close>)\<close>

datatype value_error = ValueError string

definition sanitize_agent_name :: "string \<Rightarrow> value_error + string" where
  "sanitize_agent_name name0 =
     (let name1 = replace_char CHR ''-'' CHR ''_'' (replace_char CHR '' '' CHR ''_'' name0);
          name2 = filter is_word_char name1;
          name3 = strip_chars (\<lambda>c. c = CHR ''_'') name2;
          name4 = (if name3 \<noteq> [] \<and> is_ascii_digit (hd name3) then CHR ''_'' # name3 else name3)
      in if name4 = [] then
           Inl (ValueError
             ''Agent name cannot be empty or contain only invalid characters after sanitization.'')
         else if \<not> isidentifier name4 then
           Inl (ValueError (''Sanitized name '' @ name4 @ '' is still not a valid Python identifier.''))
         else Inr name4)"

definition validate_and_sanitize_name :: "string \<Rightarrow> value_error + string" where
  \<comment> \<open>the \<open>name\<close> validator of \<open>AgentConfig\<close>, on a string: the sanitized name, or the
      error of \<open>sanitize_agent_name\<close> raised again\<close>
  "validate_and_sanitize_name v =
     (case sanitize_agent_name v of
        Inl (ValueError msg) \<Rightarrow> Inl (ValueError msg)
      | Inr sanitized_name \<Rightarrow> Inr sanitized_name)"


section \<open>Syntax trees\<close>

text \<open>
  A node of Python's \<open>ast\<close> module, as far as the function store looks at it: the two
  classes of function definitions with their \<open>name\<close>, and every other class under a
  label. Each node carries its child nodes in the order \<open>ast.iter_child_nodes\<close> yields
  them. Line and column attributes are left out: the serializer ignores them. A parsed
  file is the \<open>body\<close> of its \<open>Module\<close>.
\<close>

datatype node =
    FunctionDef string "node list"
  | AsyncFunctionDef string "node list"
  | Other string "node list"

type_synonym module = "node list"

fun iter_child_nodes :: "node \<Rightarrow> node list" where
  "iter_child_nodes (FunctionDef _ cs) = cs"
| "iter_child_nodes (AsyncFunctionDef _ cs) = cs"
| "iter_child_nodes (Other _ cs) = cs"

fun is_function_def :: "node \<Rightarrow> bool" where
  \<comment> \<open>\<open>isinstance(node, (ast.FunctionDef, ast.AsyncFunctionDef))\<close>\<close>
  "is_function_def (FunctionDef _ _) = True"
| "is_function_def (AsyncFunctionDef _ _) = True"
| "is_function_def (Other _ _) = False"

fun function_name :: "node \<Rightarrow> string" where
  \<comment> \<open>\<open>node.name\<close>; the source reads it only after the \<open>isinstance\<close> test\<close>
  "function_name (FunctionDef n _) = n"
| "function_name (AsyncFunctionDef n _) = n"
| "function_name (Other _ _) = []"

definition is_function_named :: "string \<Rightarrow> node \<Rightarrow> bool" where
  \<comment> \<open>\<open>isinstance(node, (ast.FunctionDef, ast.AsyncFunctionDef)) and node.name == func_name\<close>\<close>
  "is_function_named func_name node \<longleftrightarrow> is_function_def node \<and> function_name node = func_name"

text \<open>
  \<open>ast.walk\<close>: breadth first, from a queue. The walk of a module starts at the
  \<open>Module\<close> node, which is no function definition, and goes on with its body.
\<close>

function walk_queue :: "node list \<Rightarrow> node list" where
  "walk_queue [] = []"
| "walk_queue (n # todo) = n # walk_queue (todo @ iter_child_nodes n)"
  by pat_completeness auto
termination
proof (relation "measure (\<lambda>q. sum_list (map size q))")
  show "wf (measure (\<lambda>q::node list. sum_list (map size q)))" by simp
next
  fix n :: node and todo :: "node list"
  have "sum_list (map size (iter_child_nodes n)) < size n"
    by (cases n) (simp_all add: size_list_conv_sum_list)
  then show "(todo @ iter_child_nodes n, n # todo) \<in> measure (\<lambda>q. sum_list (map size q))"
    by simp
qed

definition walk :: "module \<Rightarrow> node list" where
  "walk tree = walk_queue tree"

definition find_function_node :: "module \<Rightarrow> string \<Rightarrow> node option" where
  "find_function_node tree func_name = List.find (is_function_named func_name) (walk tree)"


section \<open>The parser and the serializer\<close>

text \<open>
  \<open>ast.parse\<close> and \<open>ast.unparse\<close> belong to Python's standard library, not to the
  repository: the operations take them as parameters. A parser returns the module body,
  or the exception it raises, of which the handlers tell three kinds apart:
  \<open>SyntaxError\<close>, \<open>ValueError\<close>, and any other (a \<open>RecursionError\<close> on deeply nested
  text, say). A serializer renders a module body, or raises (\<open>None\<close>): \<open>ast.unparse\<close>
  raises \<open>RecursionError\<close> on trees that \<open>ast.parse\<close> builds without trouble. The text of
  a single statement \<open>n\<close> (\<open>ast.unparse(node)\<close>) is the rendering of \<open>[n]\<close>.
\<close>

datatype parse_error = ParseSyntaxError | ParseValueError | ParseOtherError

type_synonym parser = "string \<Rightarrow> parse_error + module"
type_synonym unparser = "module \<Rightarrow> string option"


section \<open>The function store (\<open>global_tools.py\<close> behind the \<open>/tools\<close> endpoints)\<close>

text \<open>
  The state is the text of the backing file, which exists: \<open>main.py\<close> creates it at
  import when it is missing. Each answer other than success is a constructor, named after the place that raises it; \<open>status_code\<close> gives its HTTP
  status.
  \<^item> \<open>StorageCorrupt\<close>: \<open>read_global_tools_ast\<close>, "Syntax error in global_tools.py";
  \<^item> \<open>ReadFailed\<close>: \<open>read_global_tools_ast\<close>, "Failed to read/parse global_tools.py";
  \<^item> \<open>AlreadyExists\<close>, \<open>NotFound\<close>, \<open>PathBodyMismatch\<close>: the handlers' own checks;
  \<^item> \<open>InvalidSyntax\<close>, \<open>NoFunctionDefinition\<close>, \<open>NameMismatch\<close>: "Invalid function code
    provided", from the clause \<open>except (SyntaxError, ValueError)\<close> of create and update;
  \<^item> \<open>ReplaceFailed\<close>: the \<open>else\<close> of update's loop, "Failed to find node index for
    replacement";
  \<^item> \<open>HandlerFailed\<close>: the clause \<open>except Exception\<close> of create and update ("Failed to
    add function", "Failed to update function"), for an exception of the parser other
    than the two above and for a failed write;
  \<^item> \<open>WriteFailed\<close>: \<open>write_global_tools_ast\<close>, "Failed to write global_tools.py";
  \<^item> \<open>Unhandled\<close>: an exception no handler catches, which the framework answers.
\<close>

datatype http_error =
    StorageCorrupt
  | ReadFailed
  | AlreadyExists
  | NotFound
  | InvalidSyntax
  | NoFunctionDefinition
  | NameMismatch
  | PathBodyMismatch
  | ReplaceFailed
  | HandlerFailed
  | WriteFailed
  | Unhandled

fun status_code :: "http_error \<Rightarrow> nat" where
  "status_code StorageCorrupt = 500"
| "status_code ReadFailed = 500"
| "status_code AlreadyExists = 409"
| "status_code NotFound = 404"
| "status_code InvalidSyntax = 400"
| "status_code NoFunctionDefinition = 400"
| "status_code NameMismatch = 400"
| "status_code PathBodyMismatch = 400"
| "status_code ReplaceFailed = 500"
| "status_code HandlerFailed = 500"
| "status_code WriteFailed = 500"
| "status_code Unhandled = 500"

definition invalid_definition :: "http_error \<Rightarrow> bool" where
  \<comment> \<open>the spec's \<open>InvalidDefinition\<close>: the submitted text has a syntax error, or
      "does not contain a valid function definition"\<close>
  "invalid_definition e \<longleftrightarrow> e = InvalidSyntax \<or> e = NoFunctionDefinition"

record tool_function =
  name :: string
  code :: string

definition read_global_tools_ast :: "parser \<Rightarrow> string \<Rightarrow> http_error + module" where
  "read_global_tools_ast P file =
     (case P file of
        Inr tree \<Rightarrow> Inr tree
      | Inl ParseSyntaxError \<Rightarrow> Inl StorageCorrupt
      | Inl ParseValueError \<Rightarrow> Inl ReadFailed
      | Inl ParseOtherError \<Rightarrow> Inl ReadFailed)"

definition write_global_tools_ast :: "unparser \<Rightarrow> module \<Rightarrow> http_error + string" where
  \<comment> \<open>the new content of the file; when the serializer raises, the file is not opened
      and the function raises in its turn\<close>
  "write_global_tools_ast U tree =
     (case U tree of
        None \<Rightarrow> Inl WriteFailed
      | Some new_source_code \<Rightarrow>
          Inr (if \<not> endswith_newline new_source_code then new_source_code @ [NL]
               else new_source_code))"

definition get_function_code :: "unparser \<Rightarrow> module \<Rightarrow> string \<Rightarrow> http_error + string option" where
  \<comment> \<open>no caller catches an exception of the serializer here\<close>
  "get_function_code U tree func_name =
     (case find_function_node tree func_name of
        Some node \<Rightarrow> (case U [node] of None \<Rightarrow> Inl Unhandled | Some c \<Rightarrow> Inr (Some c))
      | None \<Rightarrow> Inr None)"

definition new_function_node :: "parser \<Rightarrow> string \<Rightarrow> string \<Rightarrow> http_error + node" where
  \<comment> \<open>the \<open>try\<close> block that \<open>create_tool_function\<close> and \<open>update_tool_function\<close> share:
      parse the submitted code, test its first statement, compare its name\<close>
  "new_function_node P submitted target =
     (case P (strip submitted) of
        Inl ParseSyntaxError \<Rightarrow> Inl InvalidSyntax
      | Inl ParseValueError \<Rightarrow> Inl InvalidSyntax
      | Inl ParseOtherError \<Rightarrow> Inl HandlerFailed
      | Inr [] \<Rightarrow> Inl NoFunctionDefinition
      | Inr (new_func_node # _) \<Rightarrow>
          if \<not> is_function_def new_func_node then Inl NoFunctionDefinition
          else if function_name new_func_node \<noteq> target then Inl NameMismatch
          else Inr new_func_node)"

text \<open>
  Each mutating handler builds a tree and hands it to \<open>write_global_tools_ast\<close>. The
  model names the tree it builds (\<open>..._tree\<close>), then the handler writes it. A handler
  that raises writes nothing, and neither does a write whose serializer raises: the file
  stays as it is. Errors of the disk are not modelled.
\<close>

definition create_tool_function_tree :: "parser \<Rightarrow> tool_function \<Rightarrow> string \<Rightarrow> http_error + module" where
  "create_tool_function_tree P tool_func file =
     (case read_global_tools_ast P file of
        Inl e \<Rightarrow> Inl e
      | Inr tree \<Rightarrow>
          if find_function_node tree (name tool_func) \<noteq> None then Inl AlreadyExists
          else (case new_function_node P (code tool_func) (name tool_func) of
                  Inl e \<Rightarrow> Inl e
                | Inr new_func_node \<Rightarrow> Inr (tree @ [new_func_node])))"

definition create_tool_function ::
  "parser \<Rightarrow> unparser \<Rightarrow> tool_function \<Rightarrow> string \<Rightarrow> (http_error + tool_function) \<times> string" where
  "create_tool_function P U tool_func file =
     (case create_tool_function_tree P tool_func file of
        Inl e \<Rightarrow> (Inl e, file)
      | Inr tree \<Rightarrow>
          (case write_global_tools_ast U tree of
             Inl e \<Rightarrow> (Inl HandlerFailed, file)
           | Inr new_file \<Rightarrow> (Inr tool_func, new_file)))"

definition list_tool_functions :: "parser \<Rightarrow> string \<Rightarrow> http_error + string list" where
  "list_tool_functions P file =
     (case read_global_tools_ast P file of
        Inl e \<Rightarrow> Inl e
      | Inr tree \<Rightarrow> Inr (map function_name (filter is_function_def (walk tree))))"

definition get_tool_function :: "parser \<Rightarrow> unparser \<Rightarrow> string \<Rightarrow> string \<Rightarrow> http_error + tool_function" where
  "get_tool_function P U func_name file =
     (case read_global_tools_ast P file of
        Inl e \<Rightarrow> Inl e
      | Inr tree \<Rightarrow>
          (case get_function_code U tree func_name of
             Inl e \<Rightarrow> Inl e
           | Inr None \<Rightarrow> Inl NotFound
           | Inr (Some c) \<Rightarrow> Inr \<lparr>name = func_name, code = c\<rparr>))"

fun replace_first :: "string \<Rightarrow> node \<Rightarrow> module \<Rightarrow> module option" where
  \<comment> \<open>the \<open>for ... else\<close> loop of \<open>update_tool_function\<close> over \<open>tree.body\<close>: the first
      statement that defines the name is replaced; \<open>None\<close> when the loop ends without
      a \<open>break\<close>\<close>
  "replace_first func_name new_func_node [] = None"
| "replace_first func_name new_func_node (node # rest) =
     (if is_function_named func_name node then Some (new_func_node # rest)
      else map_option ((#) node) (replace_first func_name new_func_node rest))"

definition update_tool_function_tree ::
  "parser \<Rightarrow> string \<Rightarrow> tool_function \<Rightarrow> string \<Rightarrow> http_error + module" where
  "update_tool_function_tree P func_name tool_func file =
     (if func_name \<noteq> name tool_func then Inl PathBodyMismatch
      else (case read_global_tools_ast P file of
        Inl e \<Rightarrow> Inl e
      | Inr tree \<Rightarrow>
          if find_function_node tree func_name = None then Inl NotFound
          else (case new_function_node P (code tool_func) func_name of
                  Inl e \<Rightarrow> Inl e
                | Inr new_func_node \<Rightarrow>
                    (case replace_first func_name new_func_node tree of
                       None \<Rightarrow> Inl ReplaceFailed
                     | Some tree' \<Rightarrow> Inr tree'))))"

definition update_tool_function ::
  "parser \<Rightarrow> unparser \<Rightarrow> string \<Rightarrow> tool_function \<Rightarrow> string \<Rightarrow> (http_error + tool_function) \<times> string" where
  "update_tool_function P U func_name tool_func file =
     (case update_tool_function_tree P func_name tool_func file of
        Inl e \<Rightarrow> (Inl e, file)
      | Inr tree \<Rightarrow>
          (case write_global_tools_ast U tree of
             Inl e \<Rightarrow> (Inl HandlerFailed, file)
           | Inr new_file \<Rightarrow> (Inr tool_func, new_file)))"

definition delete_tool_function_tree :: "parser \<Rightarrow> string \<Rightarrow> string \<Rightarrow> http_error + module" where
  "delete_tool_function_tree P func_name file =
     (case read_global_tools_ast P file of
        Inl e \<Rightarrow> Inl e
      | Inr tree \<Rightarrow>
          (let new_body = filter (\<lambda>node. \<not> is_function_named func_name node) tree
           in if length new_body = length tree then Inl NotFound else Inr new_body))"

definition delete_tool_function ::
  "parser \<Rightarrow> unparser \<Rightarrow> string \<Rightarrow> string \<Rightarrow> (http_error + unit) \<times> string" where
  "delete_tool_function P U func_name file =
     (case delete_tool_function_tree P func_name file of
        Inl e \<Rightarrow> (Inl e, file)
      | Inr tree \<Rightarrow>
          (case write_global_tools_ast U tree of
             Inl e \<Rightarrow> (Inl e, file)
           | Inr new_file \<Rightarrow> (Inr (), new_file)))"


section \<open>A parser and a serializer for a fragment of Python\<close>

text \<open>
  To run the handlers on concrete files, the parameters are instantiated with a parser
  and a serializer for a small fragment of Python, which behave there as \<open>ast.parse\<close>
  and \<open>ast.unparse\<close> do. The fragment: lines indented by spaces; blank lines and
  comment lines, which the tokenizer skips; the statements \<open>pass\<close>, \<open>import m\<close>
  and \<open>from m import x\<close>; and \<open>def f():\<close> or \<open>async def f():\<close> followed by an
  indented block. A simple statement is the node \<open>Other\<close> labelled with its text in
  the serializer's form; a function definition carries the statements of its body (its
  empty parameter list is left out). Text outside the fragment is refused. The
  serializer writes one statement per line, four spaces per level, and an empty line
  before every function definition but one that starts the output.
\<close>

fun split_on :: "char \<Rightarrow> string \<Rightarrow> string list" where
  "split_on sep [] = [[]]"
| "split_on sep (c # cs) =
     (if c = sep then [] # split_on sep cs
      else (case split_on sep cs of [] \<Rightarrow> [[c]] | l # ls \<Rightarrow> (c # l) # ls))"

definition py_keywords :: "string list" where
  "py_keywords = [''False'', ''None'', ''True'', ''and'', ''as'', ''assert'', ''async'', ''await'',
     ''break'', ''class'', ''continue'', ''def'', ''del'', ''elif'', ''else'', ''except'',
     ''finally'', ''for'', ''from'', ''global'', ''if'', ''import'', ''in'', ''is'', ''lambda'',
     ''nonlocal'', ''not'', ''or'', ''pass'', ''raise'', ''return'', ''try'', ''while'', ''with'',
     ''yield'']"

definition is_name :: "string \<Rightarrow> bool" where
  "is_name s \<longleftrightarrow> isidentifier s \<and> \<not> List.member py_keywords s"

definition logical_lines :: "string \<Rightarrow> (nat \<times> string) list" where
  "logical_lines text =
     filter (\<lambda>(i, c). c \<noteq> [] \<and> hd c \<noteq> CHR ''#'')
       (map (\<lambda>l. (length (takeWhile (\<lambda>c. c = CHR '' '') l), strip_chars (\<lambda>c. c = CHR '' '') l))
          (split_on NL text))"

definition tokens :: "string \<Rightarrow> string list" where
  "tokens c = filter (\<lambda>w. w \<noteq> []) (split_on CHR '' '' c)"

definition def_name :: "string \<Rightarrow> string option" where
  "def_name w =
     (let k = length w - 3
      in if drop k w = ''():'' \<and> is_name (take k w) then Some (take k w) else None)"

definition parse_header :: "string \<Rightarrow> (node list \<Rightarrow> node) option" where
  "parse_header c =
     (case tokens c of
        [a, w] \<Rightarrow> if a = ''def'' then map_option FunctionDef (def_name w) else None
      | [a, b, w] \<Rightarrow>
          if a = ''async'' \<and> b = ''def'' then map_option AsyncFunctionDef (def_name w) else None
      | _ \<Rightarrow> None)"

definition parse_simple :: "string \<Rightarrow> node option" where
  "parse_simple c =
     (case tokens c of
        [a] \<Rightarrow> if a = ''pass'' then Some (Other ''pass'' []) else None
      | [a, m] \<Rightarrow> if a = ''import'' \<and> is_name m then Some (Other (''import '' @ m) []) else None
      | [a, m, b, x] \<Rightarrow>
          if a = ''from'' \<and> b = ''import'' \<and> is_name m \<and> is_name x
          then Some (Other (''from '' @ m @ '' import '' @ x) []) else None
      | _ \<Rightarrow> None)"

function parse_block :: "nat \<Rightarrow> (nat \<times> string) list \<Rightarrow> node list option" where
  "parse_block k [] = Some []"
| "parse_block k ((i, c) # rest) =
     (if i \<noteq> k then None
      else (case parse_header c of
        Some mk \<Rightarrow>
          (let block = takeWhile (\<lambda>(j, _). k < j) rest;
               after = dropWhile (\<lambda>(j, _). k < j) rest
           in if block = [] then None
              else (case parse_block (fst (hd block)) block of
                 None \<Rightarrow> None
               | Some body \<Rightarrow> map_option ((#) (mk body)) (parse_block k after)))
      | None \<Rightarrow>
          (case parse_simple c of
             None \<Rightarrow> None
           | Some s \<Rightarrow> map_option ((#) s) (parse_block k rest))))"
  by pat_completeness auto
termination
proof (relation "measure (\<lambda>(k, ls). length ls)")
  show "wf (measure (\<lambda>(k::nat, ls :: (nat \<times> string) list). length ls))" by simp
next
  fix k i :: nat and c :: string and rest :: "(nat \<times> string) list"
  show "((k, rest), k, (i, c) # rest) \<in> measure (\<lambda>(k, ls). length ls)" by simp
next
  fix k i :: nat and c :: string and rest block after :: "(nat \<times> string) list"
  assume "block = takeWhile (\<lambda>(j, _). k < j) rest"
  then show "((fst (hd block), block), k, (i, c) # rest) \<in> measure (\<lambda>(k, ls). length ls)"
    by (simp add: less_Suc_eq_le length_takeWhile_le)
next
  fix k i :: nat and c :: string and rest block after :: "(nat \<times> string) list"
  assume "after = dropWhile (\<lambda>(j, _). k < j) rest"
  then show "((k, after), k, (i, c) # rest) \<in> measure (\<lambda>(k, ls). length ls)"
    by (simp add: less_Suc_eq_le length_dropWhile_le)
qed

definition mini_parse :: parser where
  "mini_parse text =
     (case parse_block 0 (logical_lines text) of
        None \<Rightarrow> Inl ParseSyntaxError
      | Some tree \<Rightarrow> Inr tree)"

fun unparse_lines :: "nat \<Rightarrow> node \<Rightarrow> string list" where
  "unparse_lines d (Other label _) = [replicate (4 * d) CHR '' '' @ label]"
| "unparse_lines d (FunctionDef n body) =
     [] # (replicate (4 * d) CHR '' '' @ ''def '' @ n @ ''():'')
        # concat (map (unparse_lines (Suc d)) body)"
| "unparse_lines d (AsyncFunctionDef n body) =
     [] # (replicate (4 * d) CHR '' '' @ ''async def '' @ n @ ''():'')
        # concat (map (unparse_lines (Suc d)) body)"

fun join_lines :: "string list \<Rightarrow> string" where
  "join_lines [] = []"
| "join_lines [l] = l"
| "join_lines (l # ls) = l @ NL # join_lines ls"

definition mini_unparse :: unparser where
  "mini_unparse tree =
     Some (join_lines (dropWhile (\<lambda>l. l = []) (concat (map (unparse_lines 0) tree))))"

definition text_of_lines :: "string list \<Rightarrow> string" where
  "text_of_lines ls = concat (map (\<lambda>l. l @ [NL]) ls)"

definition initial_file :: string where
  \<comment> \<open>what \<open>main.py\<close> writes at import when \<open>global_tools.py\<close> does not exist\<close>
  "initial_file = text_of_lines [''# Global tool functions managed by the API'',
      ''import datetime'', ''from zoneinfo import ZoneInfo'', '''']"


section \<open>Notions of the specification\<close>

definition top_level_function_names :: "module \<Rightarrow> string list" where
  \<comment> \<open>the names of the top-level function declarations, in file order\<close>
  "top_level_function_names tree = map function_name (filter is_function_def tree)"

definition declared :: "string \<Rightarrow> module \<Rightarrow> bool" where
  \<comment> \<open>a top-level function declaration of that name is present\<close>
  "declared func_name tree \<longleftrightarrow> list_ex (is_function_named func_name) tree"







section \<open>Agent names are identifiers\<close>

lemma strip_chars_subset: "set (strip_chars p s) \<subseteq> set s"
proof -
  have "set (dropWhile p (rev (dropWhile p s))) \<subseteq> set (rev (dropWhile p s))"
    by (rule set_dropWhileD [THEN subsetI])
  also have "\<dots> \<subseteq> set s"
    using set_dropWhileD [of _ p s] by auto
  finally show ?thesis by (simp add: strip_chars_def)
qed

lemma last_dropWhile_keep: "dropWhile p xs \<noteq> [] \<Longrightarrow> last (dropWhile p xs) = last xs"
  by (induction xs) (auto split: if_splits)

lemma strip_chars_hd:
  assumes "strip_chars p s \<noteq> []"
  shows "\<not> p (hd (strip_chars p s))"
proof -
  let ?ys = "dropWhile p s"
  let ?zs = "dropWhile p (rev ?ys)"
  from assms have zs: "?zs \<noteq> []" by (simp add: strip_chars_def)
  have ys: "?ys \<noteq> []"
  proof
    assume "?ys = []"
    then have "?zs = []" by (simp only: rev.simps dropWhile.simps)
    with zs show False by contradiction
  qed
  have "hd (strip_chars p s) = last ?zs"
    using zs by (simp add: strip_chars_def hd_rev)
  also have "\<dots> = last (rev ?ys)" using zs by (rule last_dropWhile_keep)
  also have "\<dots> = hd ?ys" using ys by (simp add: last_rev)
  finally show ?thesis using ys hd_dropWhile [of p s] by simp
qed

lemma sanitized_is_identifier:
  fixes name0 :: string
  defines "name3 \<equiv> strip_chars (\<lambda>c. c = CHR ''_'')
     (filter is_word_char (replace_char CHR ''-'' CHR ''_'' (replace_char CHR '' '' CHR ''_'' name0)))"
  assumes ne: "name3 \<noteq> []"
  shows "isidentifier (if is_ascii_digit (hd name3) then CHR ''_'' # name3 else name3)"
proof -
  have "set name3 \<subseteq> set (filter is_word_char (replace_char CHR ''-'' CHR ''_'' (replace_char CHR '' '' CHR ''_'' name0)))"
    unfolding name3_def by (rule strip_chars_subset)
  then have all: "list_all is_word_char name3"
    by (auto simp: list_all_iff)
  have hd: "hd name3 \<noteq> CHR ''_''"
    using strip_chars_hd [of "\<lambda>c. c = CHR ''_''"] ne unfolding name3_def by blast
  obtain c cs where cs: "name3 = c # cs" using ne by (cases name3) auto
  with all hd have "is_word_char c" "list_all is_word_char cs" "c \<noteq> CHR ''_''" by auto
  then show ?thesis
    by (auto simp: cs isidentifier_def is_word_char_def)
qed

lemma sanitize_agent_name_result:
  "sanitize_agent_name s =
     (let name3 = strip_chars (\<lambda>c. c = CHR ''_'')
        (filter is_word_char (replace_char CHR ''-'' CHR ''_'' (replace_char CHR '' '' CHR ''_'' s)))
      in if name3 = [] then
           Inl (ValueError
             ''Agent name cannot be empty or contain only invalid characters after sanitization.'')
         else Inr (if is_ascii_digit (hd name3) then CHR ''_'' # name3 else name3))"
  using sanitized_is_identifier [of s]
  by (auto simp: sanitize_agent_name_def Let_def)

text \<open>
  C10. For every string, \<open>sanitize_agent_name\<close> either raises \<open>ValueError\<close> or returns
  a non-empty string that is a valid Python identifier, and the \<open>name\<close> validator of
  \<open>AgentConfig\<close> accepts exactly the strings it returns: every accepted agent name is a
  valid identifier.
\<close>

theorem sanitize_agent_name_identifier:
  "(\<exists>msg. sanitize_agent_name s = Inl (ValueError msg) \<and> validate_and_sanitize_name s = Inl (ValueError msg))
   \<or> (\<exists>r. sanitize_agent_name s = Inr r \<and> validate_and_sanitize_name s = Inr r
            \<and> r \<noteq> [] \<and> isidentifier r)"
proof (cases "sanitize_agent_name s")
  case (Inl e)
  then show ?thesis by (cases e) (simp add: validate_and_sanitize_name_def)
next
  case (Inr r)
  then have "r \<noteq> [] \<and> isidentifier r"
    by (auto simp: sanitize_agent_name_def Let_def split: if_splits)
  with Inr show ?thesis by (simp add: validate_and_sanitize_name_def)
qed

theorem sanitize_agent_name_identifier_witness:
  "sanitize_agent_name ''9 lives-left!'' = Inr ''_9_lives_left''
   \<and> validate_and_sanitize_name ''9 lives-left!'' = Inr ''_9_lives_left''
   \<and> isidentifier ''_9_lives_left''
   \<and> sanitize_agent_name ''__ --'' = Inl (ValueError
        ''Agent name cannot be empty or contain only invalid characters after sanitization.'')"
proof -
  have a: "sanitize_agent_name ''9 lives-left!'' = Inr ''_9_lives_left''" by code_simp
  have b: "sanitize_agent_name ''__ --'' = Inl (ValueError
        ''Agent name cannot be empty or contain only invalid characters after sanitization.'')" by code_simp
  from sanitize_agent_name_identifier [of "''9 lives-left!''"] a b show ?thesis by auto
qed


section \<open>The walk and the search\<close>

lemma walk_queue_append:
  "walk_queue (q @ r) = q @ walk_queue (r @ concat (map iter_child_nodes q))"
  by (induction q arbitrary: r) simp_all

lemma walk_top: "walk tree = tree @ walk_queue (concat (map iter_child_nodes tree))"
  using walk_queue_append [of tree "[]"] by (simp add: walk_def)

lemma find_append_cases:
  "List.find p (xs @ ys) = (case List.find p xs of None \<Rightarrow> List.find p ys | Some x \<Rightarrow> Some x)"
  by (induction xs) simp_all

lemma find_function_node_top:
  "find_function_node tree n =
     (case List.find (is_function_named n) tree of
        None \<Rightarrow> List.find (is_function_named n) (walk_queue (concat (map iter_child_nodes tree)))
      | Some x \<Rightarrow> Some x)"
  unfolding find_function_node_def by (subst walk_top) (rule find_append_cases)

lemma find_function_node_None_top:
  assumes "find_function_node tree n = None"
  shows "List.find (is_function_named n) tree = None"
  using assms by (simp add: find_function_node_top split: option.splits)

lemma find_function_node_first:
  assumes "List.find (is_function_named n) tree = Some x"
  shows "find_function_node tree n = Some x"
  using assms by (simp add: find_function_node_top)

lemma find_snoc_new:
  assumes "List.find p xs = None" and "p x"
  shows "List.find p (xs @ [x]) = Some x"
  using assms by (simp add: find_append_cases)


section \<open>What the handlers answer\<close>

lemma write_cases:
  "write_global_tools_ast U t = Inl e \<longleftrightarrow> U t = None \<and> e = WriteFailed"
  by (auto simp: write_global_tools_ast_def split: option.splits)

lemma write_succeeds:
  "(\<exists>new_file. write_global_tools_ast U t = Inr new_file) \<longleftrightarrow> U t \<noteq> None"
  by (auto simp: write_global_tools_ast_def split: option.splits)

lemma read_parsed: "P file = Inr tree \<Longrightarrow> read_global_tools_ast P file = Inr tree"
  by (simp add: read_global_tools_ast_def)

lemma read_failed:
  "read_global_tools_ast P file = Inl r \<Longrightarrow> r = StorageCorrupt \<or> r = ReadFailed"
  by (auto simp: read_global_tools_ast_def split: sum.splits parse_error.splits)

lemma create_result:
  "create_tool_function P U \<lparr>name = n, code = c\<rparr> file =
     (case read_global_tools_ast P file of
        Inl r \<Rightarrow> (Inl r, file)
      | Inr tree \<Rightarrow>
          if find_function_node tree n \<noteq> None then (Inl AlreadyExists, file)
          else (case new_function_node P c n of
                  Inl e \<Rightarrow> (Inl e, file)
                | Inr decl \<Rightarrow>
                    (case write_global_tools_ast U (tree @ [decl]) of
                       Inl e \<Rightarrow> (Inl HandlerFailed, file)
                     | Inr new_file \<Rightarrow> (Inr \<lparr>name = n, code = c\<rparr>, new_file))))"
  by (simp add: create_tool_function_def create_tool_function_tree_def split: sum.splits)

lemma update_result:
  "update_tool_function P U n \<lparr>name = n, code = c\<rparr> file =
     (case read_global_tools_ast P file of
        Inl r \<Rightarrow> (Inl r, file)
      | Inr tree \<Rightarrow>
          if find_function_node tree n = None then (Inl NotFound, file)
          else (case new_function_node P c n of
                  Inl e \<Rightarrow> (Inl e, file)
                | Inr decl \<Rightarrow>
                    (case replace_first n decl tree of
                       None \<Rightarrow> (Inl ReplaceFailed, file)
                     | Some t \<Rightarrow>
                         (case write_global_tools_ast U t of
                            Inl e \<Rightarrow> (Inl HandlerFailed, file)
                          | Inr new_file \<Rightarrow> (Inr \<lparr>name = n, code = c\<rparr>, new_file)))))"
  by (simp add: update_tool_function_def update_tool_function_tree_def
        split: sum.splits option.splits)






section \<open>The trees the handlers build\<close>








section \<open>The uniqueness invariant\<close>




section \<open>The preamble\<close>








section \<open>Rejected submissions\<close>







section \<open>Name mismatch\<close>

lemma new_function_node_mismatch:
  assumes "P (strip c) = Inr body" and "filter is_function_def body = decl # others"
    and "function_name decl \<noteq> n"
  shows "new_function_node P c n
     = Inl (if hd body = decl then NameMismatch else NoFunctionDefinition)"
proof (cases body)
  case Nil
  with assms(2) show ?thesis by simp
next
  case (Cons s rest)
  from assms(2) have decl: "is_function_def decl"
    by (metis filter_eq_ConsD)
  show ?thesis
  proof (cases "is_function_def s")
    case True
    with Cons assms(2) have "s = decl" by simp
    with True Cons assms(1,3) show ?thesis by (simp add: new_function_node_def)
  next
    case False
    with decl have "s \<noteq> decl" by blast
    with False Cons assms(1) show ?thesis by (simp add: new_function_node_def)
  qed
qed

text \<open>
  C7, amended. When the first function declaration of the submitted text has a name
  other than the addressed name \<open>n\<close>, create and update fail and the backing file stays
  as it is. The failure is the first that applies, in the order the handlers check: the
  failure of reading the backing file, when it does not parse; \<open>AlreadyExists\<close> when \<open>n\<close>
  is found in it (create), \<open>NotFound\<close> when it is not (update); then \<open>NameMismatch\<close> when
  that declaration is the first statement of the text, and \<open>InvalidDefinition\<close> when
  another statement comes before it.
\<close>

theorem name_mismatch_leaves_file:
  assumes "P (strip c) = Inr body" and "filter is_function_def body = decl # others"
    and "function_name decl \<noteq> n"
  shows "\<exists>e. e = (if hd body = decl then NameMismatch else NoFunctionDefinition)
          \<and> (e = NameMismatch \<or> invalid_definition e)
          \<and> create_tool_function P U \<lparr>name = n, code = c\<rparr> file
              = (Inl (case read_global_tools_ast P file of
                        Inl r \<Rightarrow> r
                      | Inr tree \<Rightarrow>
                          if find_function_node tree n \<noteq> None then AlreadyExists else e),
                 file)
          \<and> update_tool_function P U n \<lparr>name = n, code = c\<rparr> file
              = (Inl (case read_global_tools_ast P file of
                        Inl r \<Rightarrow> r
                      | Inr tree \<Rightarrow>
                          if find_function_node tree n = None then NotFound else e),
                 file)"
proof -
  note node = new_function_node_mismatch [where P = P and c = c, OF assms]
  let ?e = "if hd body = decl then NameMismatch else NoFunctionDefinition"
  have "?e = NameMismatch \<or> invalid_definition ?e"
    by (simp add: invalid_definition_def)
  moreover have "create_tool_function P U \<lparr>name = n, code = c\<rparr> file
      = (Inl (case read_global_tools_ast P file of
                Inl r \<Rightarrow> r
              | Inr tree \<Rightarrow> if find_function_node tree n \<noteq> None then AlreadyExists else ?e),
         file)"
    by (simp add: create_result node split: sum.splits)
  moreover have "update_tool_function P U n \<lparr>name = n, code = c\<rparr> file
      = (Inl (case read_global_tools_ast P file of
                Inl r \<Rightarrow> r
              | Inr tree \<Rightarrow> if find_function_node tree n = None then NotFound else ?e),
         file)"
    by (simp add: update_result node split: sum.splits)
  ultimately show ?thesis by blast
qed

theorem name_mismatch_leaves_file_witness:
  "create_tool_function mini_parse mini_unparse
        \<lparr>name = ''f'', code = join_lines [''def g():'', ''    pass'']\<rparr> initial_file
     = (Inl NameMismatch, initial_file)
   \<and> update_tool_function mini_parse mini_unparse ''f''
        \<lparr>name = ''f'', code = join_lines [''def g():'', ''    pass'']\<rparr>
        (text_of_lines [''def f():'', ''    pass''])
     = (Inl NameMismatch, text_of_lines [''def f():'', ''    pass''])"
proof -
  let ?c = "join_lines [''def g():'', ''    pass'']"
  let ?g = "FunctionDef ''g'' [Other ''pass'' []]"
  let ?old = "text_of_lines [''def f():'', ''    pass'']"
  have p: "mini_parse (strip ?c) = Inr [?g]" by code_simp
  have d: "filter is_function_def [?g] = ?g # []" by code_simp
  have m: "function_name ?g \<noteq> ''f''" by code_simp
  have f0: "read_global_tools_ast mini_parse initial_file
      = Inr [Other ''import datetime'' [], Other ''from zoneinfo import ZoneInfo'' []]"
    by code_simp
  have n0: "find_function_node [Other ''import datetime'' [], Other ''from zoneinfo import ZoneInfo'' []] ''f''
      = None"
    by code_simp
  have f1: "read_global_tools_ast mini_parse ?old = Inr [FunctionDef ''f'' [Other ''pass'' []]]"
    by code_simp
  have n1: "find_function_node [FunctionDef ''f'' [Other ''pass'' []]] ''f'' \<noteq> None" by code_simp
  from name_mismatch_leaves_file [where P = mini_parse and c = ?c and U = mini_unparse,
      OF p d m, of initial_file]
  have 1: "create_tool_function mini_parse mini_unparse \<lparr>name = ''f'', code = ?c\<rparr> initial_file
      = (Inl NameMismatch, initial_file)"
    unfolding f0 by (simp add: n0)
  from name_mismatch_leaves_file [where P = mini_parse and c = ?c and U = mini_unparse,
      OF p d m, of ?old]
  have 2: "update_tool_function mini_parse mini_unparse ''f'' \<lparr>name = ''f'', code = ?c\<rparr> ?old
      = (Inl NameMismatch, ?old)"
    unfolding f1 using n1 by simp
  from 1 2 show ?thesis by (intro conjI)
qed

text \<open>
  C7 as stated fails, with every earlier check passed. The text below has \<open>g\<close> as its
  first function declaration, after an import. Sent to create under the name \<open>f\<close>,
  which the file does not have, and to update under the name \<open>f\<close>, which the file has,
  it is answered with "does not contain a valid function definition", not with a name
  mismatch: the handlers test the first statement, not the first function declaration.
\<close>

theorem name_mismatch_counterexample:
  "mini_parse (strip (join_lines [''import os'', ''def g():'', ''    pass'']))
     = Inr [Other ''import os'' [], FunctionDef ''g'' [Other ''pass'' []]]
   \<and> filter is_function_def [Other ''import os'' [], FunctionDef ''g'' [Other ''pass'' []]]
     = [FunctionDef ''g'' [Other ''pass'' []]]
   \<and> list_tool_functions mini_parse initial_file = Inr []
   \<and> create_tool_function mini_parse mini_unparse
        \<lparr>name = ''f'', code = join_lines [''import os'', ''def g():'', ''    pass'']\<rparr>
        initial_file
     = (Inl NoFunctionDefinition, initial_file)
   \<and> list_tool_functions mini_parse (text_of_lines [''def f():'', ''    pass'']) = Inr [''f'']
   \<and> update_tool_function mini_parse mini_unparse ''f''
        \<lparr>name = ''f'', code = join_lines [''import os'', ''def g():'', ''    pass'']\<rparr>
        (text_of_lines [''def f():'', ''    pass''])
     = (Inl NoFunctionDefinition, text_of_lines [''def f():'', ''    pass''])"
  by code_simp


section \<open>Update in place\<close>

lemma replace_first_declared:
  "(\<exists>t. replace_first n decl tree = Some t) \<longleftrightarrow> declared n tree"
  by (induction tree) (auto simp: declared_def)

lemma replace_first_index:
  assumes "declared n tree"
  shows "replace_first n decl tree
     = Some (tree[length (takeWhile (\<lambda>s. \<not> is_function_named n s) tree) := decl])"
  using assms by (induction tree) (auto simp: declared_def)

lemma first_declaration_index:
  assumes "declared n tree"
  shows "length (takeWhile (\<lambda>s. \<not> is_function_named n s) tree) < length tree
     \<and> is_function_named n (tree ! length (takeWhile (\<lambda>s. \<not> is_function_named n s) tree))"
  using assms by (induction tree) (auto simp: declared_def)

lemma find_replaced:
  assumes "declared n tree" and "is_function_named n decl"
  shows "List.find (is_function_named n)
      (tree[length (takeWhile (\<lambda>s. \<not> is_function_named n s) tree) := decl]) = Some decl"
  using assms by (induction tree) (auto simp: declared_def)

lemma declared_found:
  assumes "declared n tree"
  shows "find_function_node tree n \<noteq> None"
proof -
  from assms have "List.find (is_function_named n) tree \<noteq> None"
    by (auto simp: declared_def find_None_iff list_ex_iff)
  then show ?thesis by (auto simp: find_function_node_top split: option.splits)
qed

lemma new_function_node_Inr:
  assumes "new_function_node P c n = Inr decl"
  shows "\<exists>rest. P (strip c) = Inr (decl # rest) \<and> is_function_named n decl"
  using assms
  by (auto simp: new_function_node_def is_function_named_def
        split: sum.splits list.splits parse_error.splits if_splits)

lemma new_function_node_first:
  assumes "P (strip c) = Inr (decl # rest)" and "is_function_named n decl"
  shows "new_function_node P c n = Inr decl"
  using assms by (simp add: new_function_node_def is_function_named_def)

lemma update_accepted:
  assumes "P file = Inr tree" and "declared n tree"
    and "P (strip D) = Inr (decl # rest)" and "is_function_named n decl"
  shows "update_tool_function P U n \<lparr>name = n, code = D\<rparr> file
     = (case write_global_tools_ast U
               (tree[length (takeWhile (\<lambda>s. \<not> is_function_named n s) tree) := decl]) of
          Inl e \<Rightarrow> (Inl HandlerFailed, file)
        | Inr new_file \<Rightarrow> (Inr \<lparr>name = n, code = D\<rparr>, new_file))"
  using read_parsed [where P = P, OF assms(1)] declared_found [OF assms(2)]
    new_function_node_first [where P = P and c = D, OF assms(3,4)]
    replace_first_index [OF assms(2), of decl]
  by (auto simp: update_result)

text \<open>
  C5, amended. On a file that parses, \<open>update(n, D')\<close> succeeds if and only if a top-level
  declaration named \<open>n\<close> is present, \<open>D'\<close>, stripped, parses to statements the first of
  which is a function declaration named \<open>n\<close>, and the serializer renders the new tree;
  what follows that declaration in \<open>D'\<close> is not looked at and not stored. The new tree is
  the old one with the first top-level declaration named \<open>n\<close> replaced, at its index, by
  the new declaration: every other statement keeps its position and content. When the
  serializer raises on it, update fails and the file stays as it is. When the parser reads
  the written tree back and the serializer renders the new declaration, \<open>read(n)\<close>
  returns that text.
\<close>

theorem update_in_place:
  assumes "P file = Inr tree"
  shows "((\<exists>r file'. update_tool_function P U n \<lparr>name = n, code = D\<rparr> file = (Inr r, file'))
            \<longleftrightarrow> declared n tree
                \<and> (\<exists>decl rest. P (strip D) = Inr (decl # rest) \<and> is_function_named n decl
                      \<and> U (tree[length (takeWhile (\<lambda>s. \<not> is_function_named n s) tree) := decl])
                          \<noteq> None))
       \<and> (\<forall>decl rest i.
             declared n tree \<and> P (strip D) = Inr (decl # rest) \<and> is_function_named n decl
             \<and> i = length (takeWhile (\<lambda>s. \<not> is_function_named n s) tree) \<longrightarrow>
               i < length tree \<and> is_function_named n (tree ! i)
               \<and> (U (tree[i := decl]) = None \<longrightarrow>
                    update_tool_function P U n \<lparr>name = n, code = D\<rparr> file
                      = (Inl HandlerFailed, file))
               \<and> (\<forall>new_file. write_global_tools_ast U (tree[i := decl]) = Inr new_file \<longrightarrow>
                    update_tool_function P U n \<lparr>name = n, code = D\<rparr> file
                      = (Inr \<lparr>name = n, code = D\<rparr>, new_file)
                    \<and> (\<forall>c. P new_file = Inr (tree[i := decl]) \<and> U [decl] = Some c \<longrightarrow>
                          get_tool_function P U n new_file = Inr \<lparr>name = n, code = c\<rparr>)))"
proof (intro conjI allI impI)
  let ?i = "length (takeWhile (\<lambda>s. \<not> is_function_named n s) tree)"
  show "(\<exists>r file'. update_tool_function P U n \<lparr>name = n, code = D\<rparr> file = (Inr r, file'))
      \<longleftrightarrow> declared n tree
          \<and> (\<exists>decl rest. P (strip D) = Inr (decl # rest) \<and> is_function_named n decl
                \<and> U (tree[?i := decl]) \<noteq> None)"
  proof
    assume "\<exists>r file'. update_tool_function P U n \<lparr>name = n, code = D\<rparr> file = (Inr r, file')"
    then obtain decl t new_file where node: "new_function_node P D n = Inr decl"
      and t: "replace_first n decl tree = Some t"
      and w: "write_global_tools_ast U t = Inr new_file"
      using read_parsed [where P = P, OF assms]
      by (auto simp: update_result split: if_splits sum.splits option.splits)
    from t have dec: "declared n tree" using replace_first_declared by blast
    from t replace_first_index [OF dec, of decl] have "t = tree[?i := decl]" by simp
    with w have "U (tree[?i := decl]) \<noteq> None" using write_succeeds by blast
    moreover from new_function_node_Inr [OF node]
    obtain rest where "P (strip D) = Inr (decl # rest)" "is_function_named n decl" by blast
    ultimately show "declared n tree
        \<and> (\<exists>decl rest. P (strip D) = Inr (decl # rest) \<and> is_function_named n decl
              \<and> U (tree[?i := decl]) \<noteq> None)"
      using dec by blast
  next
    assume a: "declared n tree
        \<and> (\<exists>decl rest. P (strip D) = Inr (decl # rest) \<and> is_function_named n decl
              \<and> U (tree[?i := decl]) \<noteq> None)"
    then obtain decl rest where d: "P (strip D) = Inr (decl # rest)" "is_function_named n decl"
      and u: "U (tree[?i := decl]) \<noteq> None"
      by blast
    from a have dec: "declared n tree" by (rule conjunct1)
    from u obtain new_file where "write_global_tools_ast U (tree[?i := decl]) = Inr new_file"
      using write_succeeds by blast
    with update_accepted [OF assms dec d, of U]
    show "\<exists>r file'. update_tool_function P U n \<lparr>name = n, code = D\<rparr> file = (Inr r, file')"
      by simp
  qed
next
  fix decl rest i
  assume a: "declared n tree \<and> P (strip D) = Inr (decl # rest) \<and> is_function_named n decl
      \<and> i = length (takeWhile (\<lambda>s. \<not> is_function_named n s) tree)"
  then have dec: "declared n tree" and d: "P (strip D) = Inr (decl # rest)"
    and named: "is_function_named n decl"
    and i: "i = length (takeWhile (\<lambda>s. \<not> is_function_named n s) tree)"
    by simp_all
  note upd = update_accepted [OF assms dec d named, of U, folded i]
  from first_declaration_index [OF dec] i
  show "i < length tree" and "is_function_named n (tree ! i)" by simp_all
  show "update_tool_function P U n \<lparr>name = n, code = D\<rparr> file = (Inl HandlerFailed, file)"
    if "U (tree[i := decl]) = None"
    using that upd by (simp add: write_global_tools_ast_def)
  fix new_file
  assume w: "write_global_tools_ast U (tree[i := decl]) = Inr new_file"
  with upd show "update_tool_function P U n \<lparr>name = n, code = D\<rparr> file
      = (Inr \<lparr>name = n, code = D\<rparr>, new_file)"
    by simp
  have "List.find (is_function_named n) (tree[i := decl]) = Some decl"
    unfolding i using dec named by (rule find_replaced)
  then have found: "find_function_node (tree[i := decl]) n = Some decl"
    by (rule find_function_node_first)
  show "get_tool_function P U n new_file = Inr \<lparr>name = n, code = c\<rparr>"
    if "P new_file = Inr (tree[i := decl]) \<and> U [decl] = Some c" for c
    using that found
    by (simp add: get_tool_function_def read_global_tools_ast_def get_function_code_def)
qed

theorem update_in_place_witness:
  "update_tool_function mini_parse mini_unparse ''f''
        \<lparr>name = ''f'', code = join_lines [''async def f():'', ''    pass'']\<rparr>
        (text_of_lines [''import datetime'', ''def f():'', ''    pass'', ''def g():'', ''    pass''])
     = (Inr \<lparr>name = ''f'', code = join_lines [''async def f():'', ''    pass'']\<rparr>,
        text_of_lines [''import datetime'', '''', ''async def f():'', ''    pass'', '''',
          ''def g():'', ''    pass''])
   \<and> get_tool_function mini_parse mini_unparse ''f''
        (text_of_lines [''import datetime'', '''', ''async def f():'', ''    pass'', '''',
          ''def g():'', ''    pass''])
     = Inr \<lparr>name = ''f'', code = join_lines [''async def f():'', ''    pass'']\<rparr>
   \<and> update_tool_function mini_parse (\<lambda>t. None) ''f''
        \<lparr>name = ''f'', code = join_lines [''async def f():'', ''    pass'']\<rparr>
        (text_of_lines [''import datetime'', ''def f():'', ''    pass'', ''def g():'', ''    pass''])
     = (Inl HandlerFailed,
        text_of_lines [''import datetime'', ''def f():'', ''    pass'', ''def g():'', ''    pass''])"
proof -
  let ?file = "text_of_lines [''import datetime'', ''def f():'', ''    pass'', ''def g():'', ''    pass'']"
  let ?new = "text_of_lines [''import datetime'', '''', ''async def f():'', ''    pass'', '''',
      ''def g():'', ''    pass'']"
  let ?D = "join_lines [''async def f():'', ''    pass'']"
  let ?imp = "Other ''import datetime'' []"
  let ?f = "FunctionDef ''f'' [Other ''pass'' []]"
  let ?g = "FunctionDef ''g'' [Other ''pass'' []]"
  let ?af = "AsyncFunctionDef ''f'' [Other ''pass'' []]"
  have p: "mini_parse ?file = Inr [?imp, ?f, ?g]" by code_simp
  have dec: "declared ''f'' [?imp, ?f, ?g]" by code_simp
  have d: "mini_parse (strip ?D) = Inr (?af # [])" by code_simp
  have named: "is_function_named ''f'' ?af" by code_simp
  have i: "Suc 0 = length (takeWhile (\<lambda>s. \<not> is_function_named ''f'' s) [?imp, ?f, ?g])"
    by code_simp
  have upd: "[?imp, ?f, ?g][Suc 0 := ?af] = [?imp, ?af, ?g]" by simp
  have w: "write_global_tools_ast mini_unparse [?imp, ?af, ?g] = Inr ?new" by code_simp
  have readback: "mini_parse ?new = Inr [?imp, ?af, ?g]" by code_simp
  have rendered: "mini_unparse [?af] = Some ?D" by code_simp
  note k = update_in_place [where P = mini_parse and n = "''f''" and D = ?D, OF p,
      THEN conjunct2, rule_format, of ?af "[]" "Suc 0"]
  from k [of mini_unparse] dec d named i
  have "\<forall>new_file. write_global_tools_ast mini_unparse ([?imp, ?f, ?g][Suc 0 := ?af]) = Inr new_file \<longrightarrow>
      update_tool_function mini_parse mini_unparse ''f'' \<lparr>name = ''f'', code = ?D\<rparr> ?file
        = (Inr \<lparr>name = ''f'', code = ?D\<rparr>, new_file)
      \<and> (\<forall>c. mini_parse new_file = Inr ([?imp, ?f, ?g][Suc 0 := ?af]) \<and> mini_unparse [?af] = Some c \<longrightarrow>
            get_tool_function mini_parse mini_unparse ''f'' new_file = Inr \<lparr>name = ''f'', code = c\<rparr>)"
    by blast
  with w readback rendered
  have 1: "update_tool_function mini_parse mini_unparse ''f'' \<lparr>name = ''f'', code = ?D\<rparr> ?file
        = (Inr \<lparr>name = ''f'', code = ?D\<rparr>, ?new)"
    and 2: "get_tool_function mini_parse mini_unparse ''f'' ?new = Inr \<lparr>name = ''f'', code = ?D\<rparr>"
    unfolding upd by blast+
  from k [of "\<lambda>t. None"] dec d named i
  have 3: "update_tool_function mini_parse (\<lambda>t. None) ''f'' \<lparr>name = ''f'', code = ?D\<rparr> ?file
      = (Inl HandlerFailed, ?file)"
    by blast
  from 1 2 3 show ?thesis by (intro conjI)
qed

text \<open>
  C5 as stated fails: update accepts text with two declarations. The first replaces
  the stored declaration, the second is dropped.
\<close>

theorem update_two_declarations_counterexample:
  "mini_parse (strip (join_lines [''async def f():'', ''    pass'', ''def g():'', ''    pass'']))
     = Inr [AsyncFunctionDef ''f'' [Other ''pass'' []], FunctionDef ''g'' [Other ''pass'' []]]
   \<and> update_tool_function mini_parse mini_unparse ''f''
        \<lparr>name = ''f'', code = join_lines [''async def f():'', ''    pass'', ''def g():'', ''    pass'']\<rparr>
        (text_of_lines [''import datetime'', '''', ''def f():'', ''    pass''])
     = (Inr \<lparr>name = ''f'',
             code = join_lines [''async def f():'', ''    pass'', ''def g():'', ''    pass'']\<rparr>,
        text_of_lines [''import datetime'', '''', ''async def f():'', ''    pass''])"
  by code_simp


section \<open>Create, then read\<close>

text \<open>
  When \<open>find_function_node\<close> finds no definition named \<open>n\<close> in the parsed file, at any
  depth, and the submitted text parses to one function declaration named \<open>n\<close>, create
  succeeds if the serializer renders the new tree, and \<open>read(n)\<close> on the file written
  returns the serializer's text of that very declaration, given that the parser reads the
  written tree back.
\<close>

theorem create_then_read_when_not_found:
  assumes parsed: "P file = Inr tree"
    and fresh: "find_function_node tree n = None"
    and parses: "P (strip D) = Inr [decl]"
    and decl: "is_function_named n decl"
    and written: "write_global_tools_ast U (tree @ [decl]) = Inr new_file"
    and readback: "P new_file = Inr (tree @ [decl])"
    and rendered: "U [decl] = Some c"
  shows "create_tool_function P U \<lparr>name = n, code = D\<rparr> file
           = (Inr \<lparr>name = n, code = D\<rparr>, new_file)
       \<and> get_tool_function P U n new_file = Inr \<lparr>name = n, code = c\<rparr>"
proof -
  from decl have d: "is_function_def decl" "function_name decl = n"
    by (simp_all add: is_function_named_def)
  have node: "new_function_node P D n = Inr decl"
    using parses d by (simp add: new_function_node_def)
  have create: "create_tool_function P U \<lparr>name = n, code = D\<rparr> file
      = (Inr \<lparr>name = n, code = D\<rparr>, new_file)"
    using read_parsed [where P = P, OF parsed] fresh node written
    by (simp add: create_result)
  have "List.find (is_function_named n) (tree @ [decl]) = Some decl"
    using find_function_node_None_top [OF fresh] decl by (rule find_snoc_new)
  then have found: "find_function_node (tree @ [decl]) n = Some decl"
    by (rule find_function_node_first)
  have "get_tool_function P U n new_file = Inr \<lparr>name = n, code = c\<rparr>"
    using readback found rendered
    by (simp add: get_tool_function_def read_global_tools_ast_def get_function_code_def)
  with create show ?thesis by (rule conjI)
qed

theorem create_then_read_when_not_found_witness:
  "create_tool_function mini_parse mini_unparse
        \<lparr>name = ''f'', code = text_of_lines [''def f():'', ''    pass'']\<rparr> initial_file
     = (Inr \<lparr>name = ''f'', code = text_of_lines [''def f():'', ''    pass'']\<rparr>,
        text_of_lines [''import datetime'', ''from zoneinfo import ZoneInfo'', '''', ''def f():'', ''    pass''])
   \<and> get_tool_function mini_parse mini_unparse ''f''
        (text_of_lines [''import datetime'', ''from zoneinfo import ZoneInfo'', '''', ''def f():'', ''    pass''])
     = Inr \<lparr>name = ''f'', code = join_lines [''def f():'', ''    pass'']\<rparr>"
proof -
  let ?tree = "[Other ''import datetime'' [], Other ''from zoneinfo import ZoneInfo'' []]"
  let ?decl = "FunctionDef ''f'' [Other ''pass'' []]"
  let ?D = "text_of_lines [''def f():'', ''    pass'']"
  let ?new = "text_of_lines [''import datetime'', ''from zoneinfo import ZoneInfo'', '''',
      ''def f():'', ''    pass'']"
  have 1: "mini_parse initial_file = Inr ?tree" by code_simp
  have 2: "find_function_node ?tree ''f'' = None" by code_simp
  have 3: "mini_parse (strip ?D) = Inr [?decl]" by code_simp
  have 4: "is_function_named ''f'' ?decl" by code_simp
  have 5: "write_global_tools_ast mini_unparse (?tree @ [?decl]) = Inr ?new" by code_simp
  have 6: "mini_parse ?new = Inr (?tree @ [?decl])" by code_simp
  have 7: "mini_unparse [?decl] = Some (join_lines [''def f():'', ''    pass''])" by code_simp
  from create_then_read_when_not_found [where P = mini_parse and U = mini_unparse and D = ?D,
      OF 1 2 3 4 5 6 7]
  show ?thesis .
qed

text \<open>
  C1 fails on the code. A name that occurs only as a nested function is not stored: no
  top-level declaration has it. Yet \<open>find_function_node\<close> walks every node and finds
  it, so create answers \<open>AlreadyExists\<close>, for text that parses to exactly one function
  declaration of that name; the file stays as it is, and \<open>read\<close> returns the nested
  function, not the submitted definition.
\<close>

theorem create_refused_for_nested_name:
  "mini_parse (text_of_lines [''import datetime'', ''from zoneinfo import ZoneInfo'', '''',
          ''def outer():'', '''', ''    def inner():'', ''        pass''])
     = Inr [Other ''import datetime'' [], Other ''from zoneinfo import ZoneInfo'' [],
          FunctionDef ''outer'' [FunctionDef ''inner'' [Other ''pass'' []]]]
   \<and> top_level_function_names
        [Other ''import datetime'' [], Other ''from zoneinfo import ZoneInfo'' [],
         FunctionDef ''outer'' [FunctionDef ''inner'' [Other ''pass'' []]]] = [''outer'']
   \<and> mini_parse (strip (join_lines [''async def inner():'', ''    pass'']))
     = Inr [AsyncFunctionDef ''inner'' [Other ''pass'' []]]
   \<and> create_tool_function mini_parse mini_unparse
        \<lparr>name = ''inner'', code = join_lines [''async def inner():'', ''    pass'']\<rparr>
        (text_of_lines [''import datetime'', ''from zoneinfo import ZoneInfo'', '''',
          ''def outer():'', '''', ''    def inner():'', ''        pass''])
     = (Inl AlreadyExists,
        text_of_lines [''import datetime'', ''from zoneinfo import ZoneInfo'', '''',
          ''def outer():'', '''', ''    def inner():'', ''        pass''])
   \<and> get_tool_function mini_parse mini_unparse ''inner''
        (text_of_lines [''import datetime'', ''from zoneinfo import ZoneInfo'', '''',
          ''def outer():'', '''', ''    def inner():'', ''        pass''])
     = Inr \<lparr>name = ''inner'', code = join_lines [''def inner():'', ''    pass'']\<rparr>"
  by code_simp


section \<open>Nested function definitions\<close>

text \<open>
  C2 fails on the code. \<open>list_tool_functions\<close> collects names over \<open>ast.walk\<close>, which
  visits every node, so a function defined inside another function's body is listed. From
  the file the server creates at startup, one create of a function with a nested
  function gives a file whose only top-level function is \<open>outer\<close>, and the listing names
  \<open>inner\<close> as well.
\<close>

theorem nested_function_listed:
  "create_tool_function mini_parse mini_unparse
        \<lparr>name = ''outer'', code = join_lines [''def outer():'', ''    def inner():'', ''        pass'']\<rparr>
        initial_file
     = (Inr \<lparr>name = ''outer'',
             code = join_lines [''def outer():'', ''    def inner():'', ''        pass'']\<rparr>,
        text_of_lines [''import datetime'', ''from zoneinfo import ZoneInfo'', '''',
          ''def outer():'', '''', ''    def inner():'', ''        pass''])
   \<and> mini_parse (text_of_lines [''import datetime'', ''from zoneinfo import ZoneInfo'', '''',
          ''def outer():'', '''', ''    def inner():'', ''        pass''])
     = Inr [Other ''import datetime'' [], Other ''from zoneinfo import ZoneInfo'' [],
          FunctionDef ''outer'' [FunctionDef ''inner'' [Other ''pass'' []]]]
   \<and> top_level_function_names
        [Other ''import datetime'' [], Other ''from zoneinfo import ZoneInfo'' [],
         FunctionDef ''outer'' [FunctionDef ''inner'' [Other ''pass'' []]]] = [''outer'']
   \<and> list_tool_functions mini_parse
        (text_of_lines [''import datetime'', ''from zoneinfo import ZoneInfo'', '''',
          ''def outer():'', '''', ''    def inner():'', ''        pass''])
     = Inr [''outer'', ''inner'']"
  by code_simp


text \<open>
  C6 fails on the code, by the same walk. Create \<open>helper\<close>, then \<open>outer\<close> with a nested
  function that is also called \<open>helper\<close>: both creates succeed. Then \<open>delete(helper)\<close>
  succeeds and removes the top-level declaration, but the listing still names
  \<open>helper\<close> and \<open>read(helper)\<close> succeeds, with the text of the nested function.
\<close>

theorem delete_leaves_nested_name:
  "snd (create_tool_function mini_parse mini_unparse
          \<lparr>name = ''outer'',
           code = join_lines [''def outer():'', ''    def helper():'', ''        pass'']\<rparr>
          (snd (create_tool_function mini_parse mini_unparse
             \<lparr>name = ''helper'', code = join_lines [''def helper():'', ''    pass'']\<rparr>
             initial_file)))
     = text_of_lines [''import datetime'', ''from zoneinfo import ZoneInfo'', '''',
          ''def helper():'', ''    pass'', '''',
          ''def outer():'', '''', ''    def helper():'', ''        pass'']
   \<and> delete_tool_function mini_parse mini_unparse ''helper''
        (text_of_lines [''import datetime'', ''from zoneinfo import ZoneInfo'', '''',
          ''def helper():'', ''    pass'', '''',
          ''def outer():'', '''', ''    def helper():'', ''        pass''])
     = (Inr (),
        text_of_lines [''import datetime'', ''from zoneinfo import ZoneInfo'', '''',
          ''def outer():'', '''', ''    def helper():'', ''        pass''])
   \<and> list_tool_functions mini_parse
        (text_of_lines [''import datetime'', ''from zoneinfo import ZoneInfo'', '''',
          ''def outer():'', '''', ''    def helper():'', ''        pass''])
     = Inr [''outer'', ''helper'']
   \<and> get_tool_function mini_parse mini_unparse ''helper''
        (text_of_lines [''import datetime'', ''from zoneinfo import ZoneInfo'', '''',
          ''def outer():'', '''', ''    def helper():'', ''        pass''])
     = Inr \<lparr>name = ''helper'', code = join_lines [''def helper():'', ''    pass'']\<rparr>"
  by code_simp

end
